theory Spec2Isabelle
  imports Main "HOL-Library.AList" "HOL-Library.Multiset"
begin

section \<open>Go strings and maps\<close>

text \<open>
  Go strings are byte sequences: \<^typ>\<open>string\<close>.  Every separator, cutset and pattern
  the program hands to the \<^verbatim>\<open>strings\<close> and \<^verbatim>\<open>regexp\<close> packages is ASCII, so
  reading the text byte by byte finds the same matches as reading it rune by rune.
\<close>

definition HasPrefix :: "string \<Rightarrow> string \<Rightarrow> bool" where
  "HasPrefix s p = (take (length p) s = p)"

text \<open>\<^verbatim>\<open>strings.Contains(s, sub)\<close>.\<close>

fun Contains :: "string \<Rightarrow> string \<Rightarrow> bool" where
  "Contains [] sub = (sub = [])"
| "Contains (c # cs) sub = (HasPrefix (c # cs) sub \<or> Contains cs sub)"

text \<open>
  \<^verbatim>\<open>strings.Split(s, sep)\<close> for a separator \<open>d # ds\<close>: the pieces between the
  non-overlapping occurrences of the separator, found from the left.  \<open>acc\<close> is the
  piece being read.
\<close>

fun splitFrom :: "char \<Rightarrow> string \<Rightarrow> string \<Rightarrow> string \<Rightarrow> string list" where
  "splitFrom d ds acc [] = [acc]"
| "splitFrom d ds acc (c # cs) =
     (if c = d \<and> take (length ds) cs = ds
      then acc # splitFrom d ds [] (drop (length ds) cs)
      else splitFrom d ds (acc @ [c]) cs)"

definition Split :: "string \<Rightarrow> string \<Rightarrow> string list" where
  "Split s sep = (case sep of [] \<Rightarrow> map (\<lambda>c. [c]) s | d # ds \<Rightarrow> splitFrom d ds [] s)"

text \<open>\<^verbatim>\<open>strings.Trim(s, cutset)\<close>: drops the leading and trailing bytes that are in the cutset.\<close>

definition Trim :: "string \<Rightarrow> string \<Rightarrow> string" where
  "Trim s cutset =
     rev (dropWhile (\<lambda>c. c \<in> set cutset) (rev (dropWhile (\<lambda>c. c \<in> set cutset) s)))"

text \<open>\<^verbatim>\<open>strings.ReplaceAll(s, old, new)\<close> for a one-byte \<open>old\<close>.\<close>

definition ReplaceAll :: "string \<Rightarrow> char \<Rightarrow> string \<Rightarrow> string" where
  "ReplaceAll s old new = concat (map (\<lambda>c. if c = old then new else [c]) s)"

text \<open>
  A Go \<^verbatim>\<open>map[string]string\<close> is the list of its entries, keys distinct.  Go leaves the
  order in which a \<^verbatim>\<open>range\<close> statement visits a map to the runtime, so that order is a
  parameter of every function that ranges over a map: a function from the entries to
  the sequence in which they are visited.  The runtime visits every entry once.
\<close>

type_synonym gomap = "(string \<times> string) list"

type_synonym range_order = "gomap \<Rightarrow> gomap"

definition range_ok :: "range_order \<Rightarrow> bool" where
  "range_ok rng = (\<forall>m. mset (rng m) = mset m)"

text \<open>Every panic of the program is a value.\<close>

datatype error =
    Panic string
  | IndexOutOfRange
  | NilDereference
  | CyclicTree
  | Js2GoError string

definition index :: "'a list \<Rightarrow> nat \<Rightarrow> error + 'a" where
  "index xs i = (if i < length xs then Inr (xs ! i) else Inl IndexOutOfRange)"

section \<open>The HTML parser's tree\<close>

text \<open>\<^verbatim>\<open>html.Attribute\<close> and \<^verbatim>\<open>html.Node\<close> of \<^verbatim>\<open>golang.org/x/net/html\<close>; the
  sibling chain \<^verbatim>\<open>FirstChild\<close>, \<^verbatim>\<open>NextSibling\<close> of a node is the list of its children.\<close>

record Attribute =
  Namespace :: string
  Key :: string
  Val :: string

datatype NodeType =
  ErrorNode | TextNode | DocumentNode | ElementNode | CommentNode | DoctypeNode | RawNode

datatype Node = Node (Type: NodeType) (Data: string) (Attr: "Attribute list") (Childs: "Node list")

datatype Element = Element
    (Text: string)
    (TagName: string)
    (Attrs: "Attribute list")
    (Children: "Element list")
    (Root: bool)

text \<open>The class \<^verbatim>\<open>\s\<close> of Go's regexp syntax: tab, newline, form feed, carriage return, space.\<close>

definition is_space :: "char \<Rightarrow> bool" where
  "is_space c = (c \<in> {CHR 0x09, CHR 0x0A, CHR 0x0C, CHR 0x0D, CHR '' ''})"

text \<open>\<^verbatim>\<open>regexp.MustCompile(`\s+`).ReplaceAllString(text, " ")\<close>: every maximal run of
  whitespace becomes one space.\<close>

function collapseSpace :: "string \<Rightarrow> string" where
  "collapseSpace [] = []"
| "collapseSpace (c # cs) =
     (if is_space c then CHR '' '' # collapseSpace (dropWhile is_space cs)
      else c # collapseSpace cs)"
  by pat_completeness auto
termination
  by (relation "measure length") (auto simp: length_dropWhile_le less_Suc_eq_le)

text \<open>The text of a text node (\<^verbatim>\<open>hNodeToElement\<close>, case \<^verbatim>\<open>html.TextNode\<close>), and whether
  the node is left out.\<close>

definition normalizeText :: "string \<Rightarrow> string" where
  "normalizeText data = collapseSpace (ReplaceAll data (CHR 0x0A) '' '')"

definition omitNode :: "string \<Rightarrow> bool" where
  "omitNode txt = (txt = '' '' \<or> txt = [])"

function hNodeToElement :: "Node list \<Rightarrow> error + Element list" where
  "hNodeToElement [] = Inr []"
| "hNodeToElement (Node ty data attr childs # nodes) =
     (case (case ty of
              TextNode \<Rightarrow>
                Inr (normalizeText data,
                     if omitNode (normalizeText data) then [] else ''__string'',
                     omitNode (normalizeText data))
            | DocumentNode \<Rightarrow> Inr ([], data, False)
            | ElementNode \<Rightarrow> Inr ([], data, False)
            | _ \<Rightarrow> Inl (Panic ''node''))
      of Inl err \<Rightarrow> Inl err
       | Inr (txt, tagName, omit) \<Rightarrow>
           if omit then hNodeToElement nodes
           else (case hNodeToElement childs of
                   Inl err \<Rightarrow> Inl err
                 | Inr cs \<Rightarrow>
                     (case hNodeToElement nodes of
                        Inl err \<Rightarrow> Inl err
                      | Inr es \<Rightarrow> Inr (Element txt tagName attr cs False # es))))"
  by pat_completeness auto
termination
  by (relation "measure (size_list size)") auto

section \<open>The Vue tree\<close>

type_synonym Props = gomap

definition Get :: "Props \<Rightarrow> string \<Rightarrow> string" where
  "Get p key = (case map_of p key of None \<Rightarrow> [] | Some v \<Rightarrow> v)"

definition Omit :: "range_order \<Rightarrow> Props \<Rightarrow> string list \<Rightarrow> Props" where
  "Omit rng p key =
     fold (\<lambda>(k, v) a. if k \<in> set key then a else AList.update k v a) (rng p) []"

definition Only :: "range_order \<Rightarrow> Props \<Rightarrow> string list \<Rightarrow> Props" where
  "Only rng p key =
     fold (\<lambda>(k, v) a. if k \<notin> set key then a else AList.update k v a) (rng p) []"

definition CanBeAttr :: "range_order \<Rightarrow> Props \<Rightarrow> Props" where
  "CanBeAttr rng p =
     fold (\<lambda>(k, v) a.
            if k \<notin> {''id'', ''src''} then a
            else if \<not> HasPrefix k ''data-'' then a
            else AList.update k v a) (rng p) []"

subsection \<open>Directive descriptors and nodes\<close>

record Directive =
  Name :: string
  Value :: string
  Arg :: string

record VFor =
  ArrayKey :: string
  ItemKey :: string
  IndexKey :: string

record VSlot =
  SlotName :: string
  PropsKey :: string

text \<open>The data from which the code of an options literal is made (\<^verbatim>\<open>OptionsGen\<close>).\<close>

record OptionsGen =
  Props :: Props
  Attrs :: gomap
  Class :: "string list"
  Style :: gomap
  StyleKeys :: "string list"
  Slot :: gomap
  DefaultSlotCode :: string
  NamedSlotCode :: gomap
  Directives :: "Directive list"

text \<open>
  A Go pointer that may be \<^verbatim>\<open>nil\<close> is an \<open>option\<close>.  The node an \<^verbatim>\<open>ElseIf\<close> points
  to is held in the entry itself: the tree is the unfolding of the pointer structure.
\<close>

datatype VueElement = VueElement
    (IsRoot: bool)
    (TagName: string)
    (Text: string)
    (Attrs: gomap)
    (AttrsKeys: "string list")
    (Directives: "Directive list")
    (ElseIfConditions: "ElseIf list")
    (Class: "string list")
    (Style: gomap)
    (StyleKeys: "string list")
    (Props: Props)
    (Children: "VueElement list")
    (VIf: "VIf option")
    (VFor: "VFor option")
    (VSlot: "VSlot option")
    (VElse: bool)
    (VElseIf: bool)
    (VHtml: string)
    (VText: string)
  and VIf = VIf (Condition: string) (ElseIf: "ElseIf list")
  and ElseIf = ElseIf (Types: string) (Condition: string) (VueElement: VueElement)

text \<open>Assignments to the fields of a node that the program writes after building it.\<close>

definition set_Props :: "VueElement \<Rightarrow> Props \<Rightarrow> VueElement" where
  "set_Props e p = (case e of VueElement.VueElement a b c d f g h i j k l m n q r s t u w \<Rightarrow>
     VueElement.VueElement a b c d f g h i j k p m n q r s t u w)"

definition set_Children :: "VueElement \<Rightarrow> VueElement list \<Rightarrow> VueElement" where
  "set_Children e ch = (case e of VueElement.VueElement a b c d f g h i j k l m n q r s t u w \<Rightarrow>
     VueElement.VueElement a b c d f g h i j k l ch n q r s t u w)"

definition set_VIf :: "VueElement \<Rightarrow> VIf option \<Rightarrow> VueElement" where
  "set_VIf e x = (case e of VueElement.VueElement a b c d f g h i j k l m n q r s t u w \<Rightarrow>
     VueElement.VueElement a b c d f g h i j k l m x q r s t u w)"

definition AddElseIf :: "VIf \<Rightarrow> ElseIf \<Rightarrow> VIf" where
  "AddElseIf p v = VIf.VIf (VIf.Condition p) (VIf.ElseIf p @ [v])"

section \<open>Lifting the raw tree: \<^verbatim>\<open>parseList\<close>\<close>

text \<open>
  The local variables of one turn of the loop over siblings.  An \<^verbatim>\<open>ElseIf\<close> under
  construction is its \<^verbatim>\<open>Types\<close> and \<^verbatim>\<open>Condition\<close>; its \<^verbatim>\<open>VueElement\<close> is set once the
  node exists.
\<close>

record locals =
  l_props :: gomap
  l_ds :: "Directive list"
  l_class :: "string list"
  l_style :: gomap
  l_styleKeys :: "string list"
  l_attrs :: gomap
  l_attrsKeys :: "string list"
  l_vIf :: "VIf option"
  l_vFor :: "VFor option"
  l_vSlot :: "VSlot option"
  l_vElse :: "(string \<times> string) option"
  l_vElseIf :: "(string \<times> string) option"
  l_vHtml :: string
  l_vText :: string

definition init_locals :: locals where
  "init_locals = \<lparr> l_props = [], l_ds = [], l_class = [], l_style = [], l_styleKeys = [],
     l_attrs = [], l_attrsKeys = [], l_vIf = None, l_vFor = None, l_vSlot = None,
     l_vElse = None, l_vElseIf = None, l_vHtml = [], l_vText = [] \<rparr>"

text \<open>The value of a \<^verbatim>\<open>v-for\<close> attribute (\<^verbatim>\<open>case key == "v-for"\<close>).  Reading \<^verbatim>\<open>ss[1]\<close>
  panics when the value has no \<^verbatim>\<open>" in "\<close>.\<close>

definition parseVFor :: "string \<Rightarrow> error + VFor" where
  "parseVFor val =
     (let ss = Split val '' in '' in
      case index ss 1 of Inl err \<Rightarrow> Inl err | Inr s1 \<Rightarrow>
      case index ss 0 of Inl err \<Rightarrow> Inl err | Inr s0 \<Rightarrow>
      (let arrayKey = Trim s1 '' '';
           left = Trim s0 '' ''
       in if Contains left '','' then
            (let left2 = Trim left ''()'';
                 ss2 = Split left2 '',''
             in case index ss2 0 of Inl err \<Rightarrow> Inl err | Inr t0 \<Rightarrow>
                case index ss2 1 of Inl err \<Rightarrow> Inl err | Inr t1 \<Rightarrow>
                Inr \<lparr> ArrayKey = arrayKey, ItemKey = Trim t0 '' '', IndexKey = Trim t1 '' '' \<rparr>)
          else Inr \<lparr> ArrayKey = arrayKey, ItemKey = left, IndexKey = ''$index'' \<rparr>))"

text \<open>One declaration of a \<^verbatim>\<open>style\<close> attribute.\<close>

definition parseStyle :: "string \<Rightarrow> gomap \<times> string list \<Rightarrow> gomap \<times> string list" where
  "parseStyle v0 st =
     (let v = Trim v0 '' '';
          ss = Split v '':''
      in if length ss \<noteq> 2 then st
         else (let key = Trim (ss ! 0) '' '';
                   val = Trim (ss ! 1) '' ''
               in (AList.update key val (fst st), snd st @ [key])))"

text \<open>One attribute of the element (the body of the loop over \<^verbatim>\<open>e.Attrs\<close>).\<close>

definition parseAttr :: "Attribute \<Rightarrow> locals \<Rightarrow> error + locals" where
  "parseAttr attr l =
     (let oriKey = Key attr;
          ss = Split oriKey '':'';
          key = (if length ss = 2 then ss ! 1 else oriKey);
          nameSpace = (if length ss = 2 then ss ! 0 else ''-'')
      in if nameSpace = ''v-bind'' \<or> nameSpace = [] then
           Inr (l\<lparr> l_props := AList.update key (Val attr) (l_props l) \<rparr>)
         else if HasPrefix oriKey ''v-'' then
           (if key = ''v-for'' then
              (case parseVFor (Val attr) of
                 Inl err \<Rightarrow> Inl err
               | Inr f \<Rightarrow> Inr (l\<lparr> l_vFor := Some f \<rparr>))
            else if key = ''v-if'' then
              Inr (l\<lparr> l_vIf := Some (VIf.VIf (Trim (Val attr) '' '') []) \<rparr>)
            else if nameSpace = ''v-slot'' then
              Inr (l\<lparr> l_vSlot := Some \<lparr> SlotName = key,
                     PropsKey = (if Val attr = [] then ''slotProps'' else Val attr) \<rparr> \<rparr>)
            else if key = ''v-else-if'' then
              Inr (l\<lparr> l_vElseIf := Some (''elseif'', Trim (Val attr) '' '') \<rparr>)
            else if key = ''v-else'' then
              Inr (l\<lparr> l_vElse := Some (''else'', Trim (Val attr) '' '') \<rparr>)
            else if key = ''v-html'' then
              Inr (l\<lparr> l_vHtml := Trim (Val attr) '' '' \<rparr>)
            else if key = ''v-text'' then
              Inr (l\<lparr> l_vText := Trim (Val attr) '' '' \<rparr>)
            else
              Inr (l\<lparr> l_ds := l_ds l @
                     [\<lparr> Name = (if nameSpace \<noteq> ''-'' then nameSpace else key),
                        Value = Trim (Val attr) '' '',
                        Arg = (if nameSpace \<noteq> ''-'' then key else []) \<rparr>] \<rparr>))
         else if Key attr = ''class'' then
           Inr (l\<lparr> l_class := l_class l @ filter (\<lambda>v. v \<noteq> []) (Split (Val attr) '' '') \<rparr>)
         else if Key attr = ''style'' then
           (let st = fold parseStyle (Split (Val attr) '';'') (l_style l, l_styleKeys l)
            in Inr (l\<lparr> l_style := fst st, l_styleKeys := snd st \<rparr>))
         else
           (let k = (if Namespace attr \<noteq> [] then Namespace attr @ '':'' @ Key attr else Key attr)
            in Inr (l\<lparr> l_attrs := AList.update k (Val attr) (l_attrs l),
                       l_attrsKeys := l_attrsKeys l @ [k] \<rparr>)))"

fun parseAttrs :: "Attribute list \<Rightarrow> locals \<Rightarrow> error + locals" where
  "parseAttrs [] l = Inr l"
| "parseAttrs (attr # as) l =
     (case parseAttr attr l of Inl err \<Rightarrow> Inl err | Inr l2 \<Rightarrow> parseAttrs as l2)"

text \<open>
  The end of a turn (\<^verbatim>\<open>if vIf != nil { ifVueEle = v } ...\<close>).  \<open>vs\<close> are the nodes of
  this sibling level built so far, the node \<open>v\<close> of this turn last, at index \<open>i\<close>.  The
  pointer \<^verbatim>\<open>ifVueEle\<close> is the index of the node it points to.  Appending to the chain
  of the node under the cursor writes that node in place.  A node that carries
  \<^verbatim>\<open>v-if\<close> together with \<^verbatim>\<open>v-else-if\<close> or \<^verbatim>\<open>v-else\<close> becomes an entry of its own
  chain; no finite tree holds that value, and the model stops there with \<open>CyclicTree\<close>.
\<close>

definition appendChain :: "VueElement list \<Rightarrow> nat \<Rightarrow> nat \<Rightarrow> string \<times> string \<Rightarrow> error + VueElement list" where
  "appendChain vs j i tc =
     (if j = i then Inl CyclicTree
      else case VueElement.VIf (vs ! j) of
             None \<Rightarrow> Inl NilDereference
           | Some p \<Rightarrow>
               Inr (vs[j := set_VIf (vs ! j)
                      (Some (AddElseIf p (ElseIf.ElseIf (fst tc) (snd tc) (vs ! i))))]))"

definition trackIf :: "locals \<Rightarrow> VueElement list \<Rightarrow> nat \<Rightarrow> nat option \<Rightarrow> error + VueElement list \<times> nat option" where
  "trackIf l vs i ifVueEle =
     (let cur = (if l_vIf l \<noteq> None then Some i
                 else if l_vElse l = None \<and> l_vElseIf l = None then None
                 else ifVueEle)
      in case (case l_vElseIf l of
                 None \<Rightarrow> Inr vs
               | Some tc \<Rightarrow>
                   (case cur of
                      None \<Rightarrow> Inl (Panic ''v-else-if must below v-if'')
                    | Some j \<Rightarrow> appendChain vs j i tc))
         of Inl err \<Rightarrow> Inl err
          | Inr vs2 \<Rightarrow>
              (case l_vElse l of
                 None \<Rightarrow> Inr (vs2, cur)
               | Some tc \<Rightarrow>
                   (case cur of
                      None \<Rightarrow> Inl (Panic ''v-else must below v-if'')
                    | Some j \<Rightarrow>
                        (case appendChain vs2 j i tc of
                           Inl err \<Rightarrow> Inl err
                         | Inr vs3 \<Rightarrow> Inr (vs3, None)))))"

text \<open>\<^verbatim>\<open>parseList\<close>: \<open>parseLoop\<close> is its loop over the siblings, with the nodes built so
  far and the cursor.\<close>

function parseList :: "Element list \<Rightarrow> error + VueElement list"
  and parseLoop :: "Element list \<Rightarrow> VueElement list \<Rightarrow> nat option \<Rightarrow> error + VueElement list"
where
  "parseList es = parseLoop es [] None"
| "parseLoop [] vs ifVueEle = Inr vs"
| "parseLoop (Element txt tag attrs children root # es) vs ifVueEle =
     (case parseAttrs attrs init_locals of
        Inl err \<Rightarrow> Inl err
      | Inr l \<Rightarrow>
          (case parseList children of
             Inl err \<Rightarrow> Inl err
           | Inr ch \<Rightarrow>
               (let v = VueElement.VueElement root tag txt (l_attrs l) (l_attrsKeys l) (l_ds l) []
                          (l_class l) (l_style l) (l_styleKeys l) (l_props l) ch
                          (l_vIf l) (l_vFor l) (l_vSlot l)
                          (l_vElse l \<noteq> None) (l_vElseIf l \<noteq> None) (l_vHtml l) (l_vText l)
                in case trackIf l (vs @ [v]) (length vs) ifVueEle of
                     Inl err \<Rightarrow> Inl err
                   | Inr (vs2, cur) \<Rightarrow> parseLoop es vs2 cur)))"
  by pat_completeness auto
termination
  by (relation "measure (\<lambda>x. case x of Inl es \<Rightarrow> 2 * size_list size es + 1
                                      | Inr (es, _) \<Rightarrow> 2 * size_list size es)") auto

definition Parse :: "Element \<Rightarrow> error + VueElement" where
  "Parse e = (case parseList [e] of Inl err \<Rightarrow> Inl err | Inr vs \<Rightarrow> index vs 0)"

section \<open>The code generator\<close>

text \<open>The registry of component names: a Go \<^verbatim>\<open>map[string]struct{}\<close>, that is a set.\<close>

record App =
  Components :: "string set"

definition NewApp :: App where
  "NewApp = \<lparr> Components = {''component'', ''slot''} \<rparr>"

definition Component :: "App \<Rightarrow> string \<Rightarrow> App" where
  "Component a name = a\<lparr> Components := insert name (Components a) \<rparr>"

definition DataKey :: string where
  "DataKey = ''this''"

definition SlotKey :: string where
  "SlotKey = ''options.Slot''"

text \<open>
  What the generator takes from outside the two files: the expression transpiler
  \<^verbatim>\<open>ast_from_api.Js2Go\<close>, which returns Go code or an error, the helpers
  \<^verbatim>\<open>getPropsClass\<close>, \<^verbatim>\<open>getPropsStyle\<close> and \<^verbatim>\<open>genAttrCode\<close>, which return code or panic
  and are taken to leave their argument as it is, and the order in which the runtime
  visits a map.
\<close>

record env =
  Js2Go :: "string \<Rightarrow> string \<Rightarrow> error + string"
  getPropsClass :: "Props \<Rightarrow> error + string"
  getPropsStyle :: "Props \<Rightarrow> error + string"
  genAttrCode :: "VueElement \<Rightarrow> error + string"
  rangeOrder :: range_order

subsection \<open>Maps and slices as Go code\<close>

definition mapStringToGoCode :: "range_order \<Rightarrow> gomap \<Rightarrow> string" where
  \<open>mapStringToGoCode rng m =
     (if length m = 0 then ''nil''
      else fold (\<lambda>(k, v) c. c @ ''"'' @ k @ ''": "'' @ v @ ''",'') (rng m) (''map[string]string'' @ ''{'')
           @ ''}'')\<close>

definition mapGoCodeToCode :: "range_order \<Rightarrow> gomap \<Rightarrow> string \<Rightarrow> string" where
  \<open>mapGoCodeToCode rng m valueType =
     fold (\<lambda>(k, v) c. c @ ''"'' @ k @ ''": '' @ v @ '','') (rng m) ((''map[string]'' @ valueType) @ ''{'')
     @ ''}''\<close>

definition sliceToGoCode :: "string list \<Rightarrow> string" where
  \<open>sliceToGoCode m = fold (\<lambda>v c. c @ ''"'' @ v @ ''", '') m (''[]string'' @ ''{'') @ ''}''\<close>

text \<open>The loop of \<^verbatim>\<open>mapJsCodeToCode\<close>; a value that does not transpile is a panic.\<close>

fun jsEntries :: "env \<Rightarrow> gomap \<Rightarrow> string \<Rightarrow> error + string" where
  \<open>jsEntries env [] props = Inr props\<close>
| \<open>jsEntries env ((k, v) # kvs) props =
     (case Js2Go env v DataKey of
        Inl err \<Rightarrow> Inl err
      | Inr valueCode \<Rightarrow> jsEntries env kvs (props @ ''"'' @ k @ ''": '' @ valueCode @ '',''))\<close>

definition mapJsCodeToCode :: "env \<Rightarrow> gomap \<Rightarrow> error + string" where
  \<open>mapJsCodeToCode env m =
     (if length m = 0 then Inr ''nil''
      else case jsEntries env (rangeOrder env m) (''map[string]interface{}'' @ ''{'') of
             Inl err \<Rightarrow> Inl err
           | Inr props \<Rightarrow> Inr (props @ ''}''))\<close>

subsection \<open>\<^verbatim>\<open>OptionsGen.ToGoCode\<close>\<close>

text \<open>
  \<^verbatim>\<open>for k, v := range src { dst[k] = v }\<close>.
\<close>

definition mergeMap :: "range_order \<Rightarrow> gomap \<Rightarrow> gomap \<Rightarrow> gomap" where
  "mergeMap rng src dst = fold (\<lambda>(k, v) m. AList.update k v m) (rng src) dst"

text \<open>
  The part of \<^verbatim>\<open>ToGoCode\<close> under \<^verbatim>\<open>if len(o.Props) != 0\<close>, from the code \<open>c\<close> so far.
  \<^verbatim>\<open>delete(o.Props, "class")\<close> writes the map the receiver holds; the receiver as it is
  afterwards is returned with the code.
\<close>

definition propsCode :: "env \<Rightarrow> OptionsGen \<Rightarrow> string \<Rightarrow> error + string \<times> OptionsGen" where
  \<open>propsCode env opts c =
     (if length (OptionsGen.Props opts) \<noteq> 0 then
        (case getPropsClass env (OptionsGen.Props opts) of
           Inl err \<Rightarrow> Inl err
         | Inr cCode \<Rightarrow>
             (let o1 = (if cCode \<noteq> ''nil''
                        then opts\<lparr> OptionsGen.Props := AList.delete ''class'' (OptionsGen.Props opts) \<rparr>
                        else opts);
                  c1 = (if cCode \<noteq> ''nil''
                        then c @ ''PropsClass: '' @ cCode @ '', \<newline>''
                        else c)
              in case getPropsStyle env (OptionsGen.Props o1) of
                   Inl err \<Rightarrow> Inl err
                 | Inr cStyle \<Rightarrow>
                     (let o2 = (if cStyle \<noteq> ''nil''
                                then o1\<lparr> OptionsGen.Props := AList.delete ''style'' (OptionsGen.Props o1) \<rparr>
                                else o1);
                          c2 = (if cStyle \<noteq> ''nil''
                                then c1 @ ''PropsStyle: '' @ cStyle @ '', \<newline>''
                                else c1)
                      in if length (OptionsGen.Props o2) \<noteq> 0 then
                           (case mapJsCodeToCode env (OptionsGen.Props o2) of
                              Inl err \<Rightarrow> Inl err
                            | Inr pc \<Rightarrow> Inr (c2 @ ''Props: '' @ pc @ '', \<newline>'', o2))
                         else Inr (c2, o2))))
      else Inr (c, opts))\<close>

text \<open>The slot map of an options literal and its code (\<^verbatim>\<open>// slot\<close>).\<close>

definition defaultSlotFunc :: "string \<Rightarrow> string" where
  \<open>defaultSlotFunc children = ''func (props map[string]interface{})string{return '' @ children @ ''}''\<close>

definition slotMap :: "range_order \<Rightarrow> OptionsGen \<Rightarrow> gomap" where
  \<open>slotMap rng opts =
     (let children = (if DefaultSlotCode opts = [] then ''""'' else DefaultSlotCode opts)
      in mergeMap rng (NamedSlotCode opts) (AList.update ''default'' (defaultSlotFunc children) []))\<close>

definition slotCode :: "range_order \<Rightarrow> OptionsGen \<Rightarrow> string" where
  \<open>slotCode rng opts = ''Slot: '' @ mapGoCodeToCode rng (slotMap rng opts) ''namedSlotFunc'' @ '',\<newline>''\<close>

text \<open>The code of the directives (\<^verbatim>\<open>// directive\<close>), from the code \<open>dir\<close> so far.\<close>

fun directiveEntries :: "env \<Rightarrow> Directive list \<Rightarrow> string \<Rightarrow> error + string" where
  \<open>directiveEntries env [] dir = Inr dir\<close>
| \<open>directiveEntries env (v # vs) dir =
     (case (if Value v \<noteq> [] then Js2Go env (Value v) DataKey else Inr ''nil'') of
        Inl err \<Rightarrow> Inl err
      | Inr valueCode \<Rightarrow>
          directiveEntries env vs
            (dir @ ''{Name: "'' @ Name v @ ''", Value: '' @ valueCode @ ''},\<newline>''))\<close>

definition directivesCode :: "env \<Rightarrow> OptionsGen \<Rightarrow> error + string" where
  \<open>directivesCode env opts =
     (if length (OptionsGen.Directives opts) \<noteq> 0 then
        (case directiveEntries env (OptionsGen.Directives opts) ''[]directive{\<newline>'' of
           Inl err \<Rightarrow> Inl err
         | Inr dir \<Rightarrow> Inr (''Directives: '' @ (dir @ ''}'') @ '',\<newline>''))
      else Inr [])\<close>

text \<open>The fields between the props and the directives: \<^verbatim>\<open>Attrs\<close>, \<^verbatim>\<open>Class\<close>, \<^verbatim>\<open>Style\<close>,
  \<^verbatim>\<open>StyleKeys\<close>, \<^verbatim>\<open>Slot\<close> and \<^verbatim>\<open>P\<close>.\<close>

definition fieldsCode :: "range_order \<Rightarrow> OptionsGen \<Rightarrow> string" where
  \<open>fieldsCode rng opts =
     (if length (OptionsGen.Attrs opts) \<noteq> 0
      then ''Attrs: '' @ mapStringToGoCode rng (OptionsGen.Attrs opts) @ '',\<newline>''
      else [])
     @ (if length (OptionsGen.Class opts) \<noteq> 0
        then ''Class: '' @ sliceToGoCode (OptionsGen.Class opts) @ '',\<newline>''
        else [])
     @ (if length (OptionsGen.Style opts) \<noteq> 0
        then ''Style: '' @ mapStringToGoCode rng (OptionsGen.Style opts) @ '',\<newline>''
        else [])
     @ (if length (OptionsGen.StyleKeys opts) \<noteq> 0
        then ''StyleKeys: '' @ sliceToGoCode (OptionsGen.StyleKeys opts) @ '',\<newline>''
        else [])
     @ slotCode rng opts
     @ ''P: options,\<newline>''\<close>

definition ToGoCode :: "env \<Rightarrow> OptionsGen \<Rightarrow> error + string \<times> OptionsGen" where
  \<open>ToGoCode env opts =
     (case propsCode env opts ''&Options{'' of
        Inl err \<Rightarrow> Inl err
      | Inr (c, opts2) \<Rightarrow>
          (case directivesCode env opts2 of
             Inl err \<Rightarrow> Inl err
           | Inr d \<Rightarrow> Inr (c @ fieldsCode (rangeOrder env) opts2 @ d @ ''}'', opts2)))\<close>

subsection \<open>Directive decorators\<close>

definition genVFor :: "VFor \<Rightarrow> string \<Rightarrow> string" where
  \<open>genVFor e srcCode =
     ''func ()string{\<newline>  var c = ""\<newline>\<newline>  for index, item := range lookInterfaceToSlice(''
     @ DataKey @ '', "'' @ ArrayKey e
     @ ''") {\<newline>    c += func(xdata map[string]interface{}) string{\<newline>        ''
     @ DataKey @ '' := extendMap(map[string]interface{}{\<newline>          "''
     @ IndexKey e @ ''": index,\<newline>          "''
     @ ItemKey e @ ''": item,\<newline>        }, xdata)\<newline>\<newline>        return ''
     @ srcCode @ ''\<newline>    }('' @ DataKey @ '')\<newline>  }\<newline>return c\<newline>}()''\<close>

definition slotFunc :: "string \<Rightarrow> string \<Rightarrow> string" where
  \<open>slotFunc propsKey srcCode =
     ''func(props map[string]interface{}) string{\<newline>'' @ [CHR 0x09]
     @ DataKey @ '' := extendMap(map[string]interface{}{"'' @ propsKey @ ''": props}, '' @ DataKey
     @ '')\<newline>_ = '' @ DataKey @ ''\<newline>return '' @ srcCode @ ''\<newline>}''\<close>

definition genVSlot :: "VSlot \<Rightarrow> string \<Rightarrow> string \<times> gomap" where
  \<open>genVSlot e srcCode = (''""'', [(SlotName e, slotFunc (PropsKey e) srcCode)])\<close>

subsection \<open>Interpolations\<close>

text \<open>
  \<^verbatim>\<open>regexp.MustCompile(`\{\{.+?\}\}`)\<close>: a match is \<^verbatim>\<open>{{\<close>, then one or more bytes none of
  which is a newline, as few as possible, then \<^verbatim>\<open>}}\<close>.  \<open>findClose\<close> is the place of the
  first \<^verbatim>\<open>}}\<close>; \<open>matchVal\<close> is the match at the start of the text, as the bytes between
  the braces and the text after the match.
\<close>

fun findClose :: "string \<Rightarrow> nat option" where
  "findClose (a # b # cs) =
     (if a = CHR ''}'' \<and> b = CHR ''}'' then Some 0 else map_option Suc (findClose (b # cs)))"
| "findClose _ = None"

definition matchVal :: "string \<Rightarrow> (string \<times> string) option" where
  "matchVal s =
     (case s of
        a # b # c # rest \<Rightarrow>
          if a = CHR ''{'' \<and> b = CHR ''{'' \<and> c \<noteq> CHR 0x0A then
            (case findClose rest of
               None \<Rightarrow> None
             | Some j \<Rightarrow>
                 if CHR 0x0A \<in> set (take j rest) then None
                 else Some (c # take j rest, drop (j + 2) rest))
          else None
      | _ \<Rightarrow> None)"

text \<open>\<^verbatim>\<open>injectVal\<close>: every match, from the left, is replaced; a key that does not
  transpile is a panic.\<close>

function injectVal :: "env \<Rightarrow> string \<Rightarrow> error + string" where
  \<open>injectVal env [] = Inr []\<close>
| \<open>injectVal env (x # xs) =
     (case matchVal (x # xs) of
        None \<Rightarrow>
          (case injectVal env xs of Inl err \<Rightarrow> Inl err | Inr to \<Rightarrow> Inr (x # to))
      | Some (key, rest) \<Rightarrow>
          (case Js2Go env key DataKey of
             Inl err \<Rightarrow> Inl err
           | Inr goCode \<Rightarrow>
               (case injectVal env rest of
                  Inl err \<Rightarrow> Inl err
                | Inr to \<Rightarrow> Inr (''"+interfaceToStr('' @ goCode @ '')+"'' @ to))))\<close>
  by pat_completeness auto
termination
proof (relation "measure (\<lambda>(env, s). length s)")
  show "wf (measure (\<lambda>(env, s). length s))" by simp
next
  fix env :: env and x xs
  show "((env, xs), (env, x # xs)) \<in> measure (\<lambda>(env, s). length s)" by simp
next
  fix env :: env and x xs x2 key rest
  assume "matchVal (x # xs) = Some x2" and "(key, rest) = x2"
  then have "length rest < length (x # xs)"
    by (auto simp: matchVal_def split: list.splits if_splits option.splits)
  then show "((env, rest), (env, x # xs)) \<in> measure (\<lambda>(env, s). length s)" by simp
qed

text \<open>The opening of the conditional ladder \<^verbatim>\<open>genVIf\<close> writes.\<close>

definition ifHead :: "string \<Rightarrow> string" where
  \<open>ifHead condition = ''func ()string{\<newline>if interfaceToBool('' @ condition @ '') {return ''\<close>

subsection \<open>\<^verbatim>\<open>VueElement.GenCode\<close>\<close>

text \<open>
  The code of the element itself (\<^verbatim>\<open>GenCode\<close>, from \<^verbatim>\<open>_, exist := app.Components[e.TagName]\<close>
  to the end of the static branch), given the code of its children.  The options
  literal holds the node's own \<^verbatim>\<open>Props\<close> map, not a copy, so what \<^verbatim>\<open>ToGoCode\<close> deletes
  from its receiver's map is deleted from the node's: the node as it is afterwards is
  returned with the code.
\<close>

definition optionsOf :: "VueElement \<Rightarrow> string \<Rightarrow> gomap \<Rightarrow> OptionsGen" where
  "optionsOf e defaultSlotCode namedSlotCode =
     \<lparr> OptionsGen.Props = Props e, OptionsGen.Attrs = Attrs e, OptionsGen.Class = Class e,
       OptionsGen.Style = Style e, OptionsGen.StyleKeys = StyleKeys e, Slot = [],
       DefaultSlotCode = defaultSlotCode, NamedSlotCode = namedSlotCode,
       OptionsGen.Directives = Directives e \<rparr>"

definition genElement :: "env \<Rightarrow> App \<Rightarrow> VueElement \<Rightarrow> string \<Rightarrow> gomap \<Rightarrow> error + string \<times> VueElement" where
  \<open>genElement env app e defaultSlotCode namedSlotCode =
     (if TagName e \<in> Components app then
        (case ToGoCode env (optionsOf e defaultSlotCode namedSlotCode) of
           Inl err \<Rightarrow> Inl err
         | Inr (optionsCode, o2) \<Rightarrow>
             Inr (''r.Component_'' @ TagName e @ ''('' @ optionsCode @ '')'',
                  set_Props e (OptionsGen.Props o2)))
      else if TagName e = ''template'' then Inr (defaultSlotCode, e)
      else if TagName e = ''__string'' then
        (case injectVal env (ReplaceAll (Text e) (CHR 0x0A) [CHR 0x5C, CHR ''n'']) of
           Inl err \<Rightarrow> Inl err
         | Inr txt \<Rightarrow> Inr (''"'' @ txt @ ''"'', e))
      else if IsRoot e \<or> length (Directives e) \<noteq> 0 then
        (case ToGoCode env (optionsOf e defaultSlotCode namedSlotCode) of
           Inl err \<Rightarrow> Inl err
         | Inr (optionsCode, o2) \<Rightarrow>
             Inr (''r.Tag("'' @ TagName e @ ''", '' @ (if IsRoot e then ''true'' else ''false'')
                    @ '', '' @ optionsCode @ '')'',
                  set_Props e (OptionsGen.Props o2)))
      else
        (case genAttrCode env e of
           Inl err \<Rightarrow> Inl err
         | Inr attrs \<Rightarrow>
             Inr (''"<'' @ TagName e @ ''"+'' @ attrs @ ''+">"+'' @ defaultSlotCode
                    @ ''+"</'' @ TagName e @ ''>"'', e)))\<close>

text \<open>
  \<^verbatim>\<open>GenCode\<close> returns the code, the named slots, and the node as the call leaves it.
  \<open>genChildren\<close> is its loop over the children, \<open>genVIf\<close> the function of that name and
  \<open>genElseIfs\<close> the loop of \<^verbatim>\<open>genVIf\<close> over the chain.  A node of a chain is held by
  its entry; where the program's tree holds the same node as a child too, the child is
  skipped by the loop over the children and the call writes the entry's node.
\<close>

lemma size_Children: "size_list size (Children e) < size e"
  by (cases e) simp

lemma size_VIf: "VueElement.VIf e = Some vif \<Longrightarrow> size vif < size e"
  by (cases e) simp

function GenCode :: "env \<Rightarrow> App \<Rightarrow> VueElement \<Rightarrow> error + string \<times> gomap \<times> VueElement"
  and genChildren :: "env \<Rightarrow> App \<Rightarrow> VueElement list \<Rightarrow> string \<Rightarrow> gomap \<Rightarrow> error + string \<times> gomap \<times> VueElement list"
  and genVIf :: "env \<Rightarrow> App \<Rightarrow> VIf \<Rightarrow> string \<Rightarrow> error + string \<times> gomap \<times> VIf"
  and genElseIfs :: "env \<Rightarrow> App \<Rightarrow> ElseIf list \<Rightarrow> string \<Rightarrow> gomap \<Rightarrow> error + string \<times> gomap \<times> ElseIf list"
where
  \<open>GenCode env app e =
     (case genChildren env app (Children e) [] [] of
        Inl err \<Rightarrow> Inl err
      | Inr (childrenCode, namedSlotCode, ch) \<Rightarrow>
          (let defaultSlotCode = (if childrenCode = [] then ''""'' else childrenCode)
           in case genElement env app (set_Children e ch) defaultSlotCode namedSlotCode of
                Inl err \<Rightarrow> Inl err
              | Inr (eleCode, e2) \<Rightarrow>
                  (let eleCode1 = (case VFor e of None \<Rightarrow> eleCode | Some f \<Rightarrow> genVFor f eleCode);
                       eleCode2 = (case VSlot e of None \<Rightarrow> eleCode1
                                   | Some s \<Rightarrow> fst (genVSlot s eleCode1));
                       namedSlotCode2 = (case VSlot e of None \<Rightarrow> namedSlotCode
                                         | Some s \<Rightarrow> mergeMap (rangeOrder env) (snd (genVSlot s eleCode1)) namedSlotCode)
                   in case VueElement.VIf e of
                        None \<Rightarrow> Inr (eleCode2, namedSlotCode2, e2)
                      | Some vif \<Rightarrow>
                          (case genVIf env app vif eleCode2 of
                             Inl err \<Rightarrow> Inl err
                           | Inr (code, slots, vif2) \<Rightarrow>
                               Inr (code, mergeMap (rangeOrder env) slots namedSlotCode2,
                                    set_VIf e2 (Some vif2))))))\<close>
| \<open>genChildren env app [] defaultSlotCode namedSlotCode = Inr (defaultSlotCode, namedSlotCode, [])\<close>
| \<open>genChildren env app (v # vs) defaultSlotCode namedSlotCode =
     (if VElse v \<or> VElseIf v then
        (case genChildren env app vs defaultSlotCode namedSlotCode of
           Inl err \<Rightarrow> Inl err
         | Inr (code, slots, vs2) \<Rightarrow> Inr (code, slots, v # vs2))
      else
        (case GenCode env app v of
           Inl err \<Rightarrow> Inl err
         | Inr (childCode, childNamedSlotCode, v2) \<Rightarrow>
             (case genChildren env app vs
                     ((if defaultSlotCode \<noteq> [] then defaultSlotCode @ ''+'' else defaultSlotCode) @ childCode)
                     (mergeMap (rangeOrder env) childNamedSlotCode namedSlotCode) of
                Inl err \<Rightarrow> Inl err
              | Inr (code, slots, vs2) \<Rightarrow> Inr (code, slots, v2 # vs2))))\<close>
| \<open>genVIf env app (VIf.VIf cond chain) srcCode =
     (case Js2Go env cond DataKey of
        Inl err \<Rightarrow> Inl err
      | Inr condition \<Rightarrow>
          (case genElseIfs env app chain
                  (ifHead condition @ srcCode) [] of
             Inl err \<Rightarrow> Inl err
           | Inr (code, slots, chain2) \<Rightarrow>
               Inr (code @ ''\<newline>}\<newline>return ""\<newline>}()'', slots, VIf.VIf cond chain2)))\<close>
| \<open>genElseIfs env app [] code namedSlotCode = Inr (code, namedSlotCode, [])\<close>
| \<open>genElseIfs env app (ElseIf.ElseIf types cond el # rest) code namedSlotCode =
     (case GenCode env app el of
        Inl err \<Rightarrow> Inl err
      | Inr (eleCode, namedSlotCode2, el2) \<Rightarrow>
          (case (if types = ''else'' then Inr (code @ ''} else { return '' @ eleCode)
                 else if types = ''elseif'' then
                   (case Js2Go env cond DataKey of
                      Inl err \<Rightarrow> Inl err
                    | Inr condition \<Rightarrow>
                        Inr (code @ ''} else if interfaceToBool('' @ condition @ '') { return '' @ eleCode))
                 else Inr code) of
             Inl err \<Rightarrow> Inl err
           | Inr code2 \<Rightarrow>
               (case genElseIfs env app rest code2
                       (mergeMap (rangeOrder env) namedSlotCode2 namedSlotCode) of
                  Inl err \<Rightarrow> Inl err
                | Inr (code3, slots, rest2) \<Rightarrow>
                    Inr (code3, slots, ElseIf.ElseIf types cond el2 # rest2))))\<close>
  by pat_completeness auto
termination
  by (relation "measure (\<lambda>x. case x of
          Inl (Inl (env, app, e)) \<Rightarrow> size e
        | Inl (Inr (env, app, vs, c, n)) \<Rightarrow> size_list size vs
        | Inr (Inl (env, app, vif, c)) \<Rightarrow> size vif
        | Inr (Inr (env, app, xs, c, n)) \<Rightarrow> size_list size xs)")
     (auto simp: size_Children size_VIf)

declare GenCode.simps [simp del]

section \<open>Predicates of the statements\<close>







section \<open>Example trees\<close>

definition plain_node :: "string \<Rightarrow> VueElement" where
  "plain_node tag = VueElement.VueElement False tag [] [] [] [] [] [] [] [] [] [] None None None False False [] []"



definition attr :: "string \<Rightarrow> string \<Rightarrow> Attribute" where
  "attr k v = \<lparr> Namespace = [], Key = k, Val = v \<rparr>"


definition text_node :: "string \<Rightarrow> VueElement" where
  "text_node t =
     VueElement.VueElement False ''__string'' t [] [] [] [] [] [] [] [] [] None None None False False [] []"

text \<open>
  Modelled from the spec: \<^verbatim>\<open>ast_from_api.Js2Go\<close> is not among the source files.  This
  stand-in for the examples knows one rule of the spec's transpiler, ``a bare identifier
  \<^verbatim>\<open>foo\<close> becomes a lookup \<^verbatim>\<open>S["foo"]\<close>'', and fails on an empty expression.
\<close>

definition identJs2Go :: "string \<Rightarrow> string \<Rightarrow> error + string" where
  \<open>identJs2Go code dataKey =
     (if Trim code '' '' = [] then Inl (Js2GoError code)
      else Inr (dataKey @ ''["'' @ Trim code '' '' @ ''"]''))\<close>

text \<open>
  Modelled from the spec: \<^verbatim>\<open>getPropsClass\<close>, \<^verbatim>\<open>getPropsStyle\<close> and \<^verbatim>\<open>genAttrCode\<close> are
  not among the source files.  For the examples, ``if \<^verbatim>\<open>props["class"]\<close> exists, transpile
  its value and place the result under \<^verbatim>\<open>PropsClass\<close>; same for \<^verbatim>\<open>style\<close>'', with
  \<^verbatim>\<open>nil\<close> when it does not exist; the code of the static attributes is the empty string
  literal.  \<open>rng\<close> is the order in which maps are visited.
\<close>

definition ex_env :: "range_order \<Rightarrow> env" where
  \<open>ex_env rng =
     \<lparr> Js2Go = identJs2Go,
       getPropsClass = (\<lambda>p. case map_of p ''class'' of
                               None \<Rightarrow> Inr ''nil'' | Some v \<Rightarrow> identJs2Go v DataKey),
       getPropsStyle = (\<lambda>p. case map_of p ''style'' of
                               None \<Rightarrow> Inr ''nil'' | Some v \<Rightarrow> identJs2Go v DataKey),
       genAttrCode = (\<lambda>e. Inr ''""''),
       rangeOrder = rng \<rparr>\<close>

definition span_hello :: VueElement where
  "span_hello = set_Children (plain_node ''span'') [text_node ''Hello {{ name }}'']"






section \<open>Properties\<close>

subsection \<open>Props.CanBeAttr\<close>

lemma allowlist_no_data_prefix:
  "k \<in> {''id'', ''src''} \<Longrightarrow> \<not> HasPrefix k ''data-''"
  by (auto simp: HasPrefix_def)

lemma CanBeAttr_fold_empty:
  "fold (\<lambda>(k, v) a.
            if k \<notin> {''id'', ''src''} then a
            else if \<not> HasPrefix k ''data-'' then a
            else AList.update k v a) xs [] = []"
proof (induction xs)
  case Nil
  show ?case by simp
next
  case (Cons x xs)
  obtain k v where x: "x = (k, v)" by (cases x)
  have "k \<notin> {''id'', ''src''} \<or> \<not> HasPrefix k ''data-''"
    using allowlist_no_data_prefix by blast
  then show ?case
    using Cons.IH unfolding x by auto
qed

text \<open>
  C10.  \<open>CanBeAttr\<close> keeps an entry only when its key is on the allowlist
  (\<open>id\<close>, \<open>src\<close>) and also starts with \<open>data-\<close>.  No key on the allowlist starts
  with \<open>data-\<close>, so whatever the props and whatever order the map is visited in, the
  result is the empty map.
\<close>

theorem CanBeAttr_empty:
  "CanBeAttr rng p = [] \<and> (\<forall>k. k \<in> {''id'', ''src''} \<longrightarrow> \<not> HasPrefix k ''data-'')"
  unfolding CanBeAttr_def using CanBeAttr_fold_empty allowlist_no_data_prefix by blast

theorem CanBeAttr_empty_witness:
  "CanBeAttr id [(''id'', ''a''), (''data-x'', ''b''), (''src'', ''c'')] = []
   \<and> \<not> HasPrefix ''id'' ''data-'' \<and> \<not> HasPrefix ''src'' ''data-''"
  using CanBeAttr_empty [of id "[(''id'', ''a''), (''data-x'', ''b''), (''src'', ''c'')]"]
  by blast

subsection \<open>Whitespace in text nodes\<close>

lemma dropWhile_collapse_head:
  "t = [] \<or> \<not> is_space (hd t) \<Longrightarrow> dropWhile is_space (collapseSpace t) = collapseSpace t"
  by (cases t) auto

lemma dropWhile_collapse_nonspace:
  "dropWhile is_space (collapseSpace (dropWhile is_space cs)) = collapseSpace (dropWhile is_space cs)"
  by (rule dropWhile_collapse_head) (metis hd_dropWhile)

lemma collapseSpace_idem: "collapseSpace (collapseSpace s) = collapseSpace s"
proof (induction s rule: collapseSpace.induct)
  case 1
  show ?case by simp
next
  case (2 c cs)
  show ?case
  proof (cases "is_space c")
    case True
    have sp: "is_space (CHR '' '')" by (simp add: is_space_def)
    show ?thesis using True 2 sp by (simp add: dropWhile_collapse_nonspace)
  next
    case False
    then show ?thesis using 2 by simp
  qed
qed

lemma collapseSpace_no_newline: "CHR 0x0A \<notin> set (collapseSpace s)"
proof (induction s rule: collapseSpace.induct)
  case 1
  show ?case by simp
next
  case (2 c cs)
  then show ?case by (auto simp: is_space_def)
qed

lemma ReplaceAll_absent: "old \<notin> set s \<Longrightarrow> ReplaceAll s old new = s"
  by (induction s) (auto simp: ReplaceAll_def)

text \<open>
  C9.  The text of a text node is normalised by replacing every newline with a space
  and then every run of whitespace with one space.  Normalising text that is already
  normalised returns it unchanged; so the decision to leave the node out (the text is
  empty or one space) is the same the second time, and \<open>hNodeToElement\<close> builds the same
  elements from a text node whether it holds the text or the normalised text.
\<close>

theorem normalizeText_fixed_point:
  "normalizeText (normalizeText s) = normalizeText s
   \<and> omitNode (normalizeText (normalizeText s)) = omitNode (normalizeText s)
   \<and> hNodeToElement (Node TextNode (normalizeText s) a ch # ns)
       = hNodeToElement (Node TextNode s a ch # ns)"
proof -
  have "normalizeText (normalizeText s) = normalizeText s"
    unfolding normalizeText_def
    by (simp add: ReplaceAll_absent collapseSpace_no_newline collapseSpace_idem)
  then show ?thesis by simp
qed


subsection \<open>The lifter: \<^verbatim>\<open>v-for\<close> values and else chains\<close>


lemma HasPrefix_Cons: "HasPrefix (c # cs) (d # ds) = (c = d \<and> take (length ds) cs = ds)"
  by (auto simp: HasPrefix_def)

lemma splitFrom_none:
  "\<not> Contains s (d # ds) \<Longrightarrow> splitFrom d ds acc s = [acc @ s]"
  by (induction s arbitrary: acc) (auto simp: HasPrefix_Cons)

lemma take_through_butlast:
  assumes "take (length ds) (l @ d # ds @ r) = ds"
  shows "take (length ds) (l @ butlast (d # ds)) = ds"
proof -
  define b where "b = butlast (d # ds)"
  define z where "z = last (d # ds)"
  have bz: "b @ [z] = d # ds"
    unfolding b_def z_def by (rule append_butlast_last_id) simp
  have lb: "length b = length ds"
    unfolding b_def by simp
  have "(l @ b) @ (z # r) = l @ (b @ [z]) @ r"
    by simp
  also have "\<dots> = l @ d # ds @ r"
    unfolding bz by simp
  finally have eq: "l @ d # ds @ r = (l @ b) @ (z # r)"
    by (rule sym)
  from assms have "take (length ds) ((l @ b) @ (z # r)) = ds"
    by (simp only: eq)
  moreover have "take (length ds) ((l @ b) @ (z # r)) = take (length ds) (l @ b)"
    using lb by simp
  ultimately show ?thesis
    unfolding b_def by simp
qed

lemma splitFrom_first:
  "\<not> Contains (l @ butlast (d # ds)) (d # ds) \<Longrightarrow>
   splitFrom d ds acc (l @ d # ds @ r) = (acc @ l) # splitFrom d ds [] r"
proof (induction l arbitrary: acc)
  case Nil
  show ?case by simp
next
  case (Cons c l)
  from Cons.prems have np: "\<not> HasPrefix (c # l @ butlast (d # ds)) (d # ds)"
    and nc: "\<not> Contains (l @ butlast (d # ds)) (d # ds)" by simp_all
  have "\<not> (c = d \<and> take (length ds) (l @ d # ds @ r) = ds)"
    using np take_through_butlast [of ds l d r] by (auto simp: HasPrefix_Cons simp del: butlast.simps)
  then show ?case using Cons.IH [OF nc] by simp
qed

lemma Split_two_sides:
  assumes "\<not> Contains (l @ '' in'') '' in ''" and "\<not> Contains r '' in ''"
  shows "Split (l @ '' in '' @ r) '' in '' = [l, r]"
proof -
  have "splitFrom (CHR '' '') ''in '' [] (l @ CHR '' '' # ''in '' @ r) = ([] @ l) # splitFrom (CHR '' '') ''in '' [] r"
    using assms(1) by (intro splitFrom_first) simp
  moreover have "splitFrom (CHR '' '') ''in '' [] r = [[] @ r]"
    using assms(2) by (intro splitFrom_none) simp
  ultimately show ?thesis by (simp add: Split_def)
qed

lemma Contains_char: "Contains s [c] = (c \<in> set s)"
  by (induction s) (auto simp: HasPrefix_def)

lemma dropWhile_keeps: "\<not> P c \<Longrightarrow> (c \<in> set (dropWhile P s)) = (c \<in> set s)"
  by (induction s) auto

lemma Trim_keeps: "c \<notin> set cutset \<Longrightarrow> (c \<in> set (Trim s cutset)) = (c \<in> set s)"
  by (simp add: Trim_def dropWhile_keeps)

lemma splitFrom_nonempty: "1 \<le> length (splitFrom d ds acc s)"
  by (induction s arbitrary: acc) auto

lemma splitFrom_char_length: "c \<in> set s \<Longrightarrow> 2 \<le> length (splitFrom c [] acc s)"
proof (induction s arbitrary: acc)
  case Nil then show ?case by simp
next
  case (Cons x s)
  show ?case
  proof (cases "x = c")
    case True
    have "1 \<le> length (splitFrom c [] [] s)" by (rule splitFrom_nonempty)
    then show ?thesis using True by simp
  next
    case False
    then show ?thesis using Cons by auto
  qed
qed

lemma Split_comma_length:
  "Contains left '','' \<Longrightarrow> 2 \<le> length (Split (Trim left ''()'') '','')"
  by (simp add: Split_def Contains_char Trim_keeps splitFrom_char_length)

text \<open>
  C7.  A \<^verbatim>\<open>v-for\<close> value \<open>l @ " in " @ r\<close> whose only \<^verbatim>\<open>" in "\<close> is the one
  shown is split there: \<^verbatim>\<open>array_key\<close> is \<open>r\<close> trimmed of spaces.  When the trimmed left side
  contains a comma, the parentheses around it are stripped, it is split on the comma,
  and the first two pieces, trimmed, are \<^verbatim>\<open>item_key\<close> and \<^verbatim>\<open>index_key\<close>; otherwise the
  trimmed left side is \<^verbatim>\<open>item_key\<close> and \<^verbatim>\<open>index_key\<close> is \<^verbatim>\<open>$index\<close>.
\<close>

theorem parseVFor_sides:
  assumes "\<not> Contains (l @ '' in'') '' in ''" and "\<not> Contains r '' in ''"
  shows "(Contains (Trim l '' '') '','' \<longrightarrow>
           parseVFor (l @ '' in '' @ r) =
             Inr \<lparr> ArrayKey = Trim r '' '',
                   ItemKey = Trim (Split (Trim (Trim l '' '') ''()'') '','' ! 0) '' '',
                   IndexKey = Trim (Split (Trim (Trim l '' '') ''()'') '','' ! 1) '' '' \<rparr>)
       \<and> (\<not> Contains (Trim l '' '') '','' \<longrightarrow>
           parseVFor (l @ '' in '' @ r) =
             Inr \<lparr> ArrayKey = Trim r '' '', ItemKey = Trim l '' '', IndexKey = ''$index'' \<rparr>)"
proof -
  have sp: "Split (l @ '' in '' @ r) '' in '' = [l, r]"
    using assms by (rule Split_two_sides)
  show ?thesis
  proof (cases "Contains (Trim l '' '') '',''")
    case True
    from Split_comma_length [OF True]
    have "2 \<le> length (Split (Trim (Trim l '' '') ''()'') '','')" .
    then have "0 < length (Split (Trim (Trim l '' '') ''()'') '','')"
      and "1 < length (Split (Trim (Trim l '' '') ''()'') '','')" by linarith+
    then show ?thesis using True sp
      by (simp add: parseVFor_def index_def Let_def)
  next
    case False
    then show ?thesis using sp by (simp add: parseVFor_def index_def Let_def)
  qed
qed

theorem parseVFor_sides_witness:
  "parseVFor ''(it, i) in xs'' = Inr \<lparr> ArrayKey = ''xs'', ItemKey = ''it'', IndexKey = ''i'' \<rparr>
   \<and> parseVFor ''item in list'' = Inr \<lparr> ArrayKey = ''list'', ItemKey = ''item'', IndexKey = ''$index'' \<rparr>"
proof -
  have a: "\<not> Contains (''(it, i)'' @ '' in'') '' in ''" by (simp add: HasPrefix_def)
  have b: "\<not> Contains ''xs'' '' in ''" by (simp add: HasPrefix_def)
  have c: "\<not> Contains (''item'' @ '' in'') '' in ''" by (simp add: HasPrefix_def)
  have d: "\<not> Contains ''list'' '' in ''" by (simp add: HasPrefix_def)
  have e: "Contains (Trim ''(it, i)'' '' '') '',''" by (simp add: HasPrefix_def Trim_def)
  have f: "\<not> Contains (Trim ''item'' '' '') '',''" by (simp add: HasPrefix_def Trim_def)
  have "parseVFor (''(it, i)'' @ '' in '' @ ''xs'') =
             Inr \<lparr> ArrayKey = Trim ''xs'' '' '',
                   ItemKey = Trim (Split (Trim (Trim ''(it, i)'' '' '') ''()'') '','' ! 0) '' '',
                   IndexKey = Trim (Split (Trim (Trim ''(it, i)'' '' '') ''()'') '','' ! 1) '' '' \<rparr>"
    using parseVFor_sides [OF a b] e by blast
  moreover have "parseVFor (''item'' @ '' in '' @ ''list'') =
             Inr \<lparr> ArrayKey = Trim ''list'' '' '', ItemKey = Trim ''item'' '' '', IndexKey = ''$index'' \<rparr>"
    using parseVFor_sides [OF c d] f by blast
  ultimately show ?thesis by (simp add: Trim_def Split_def)
qed

lemma parseVFor_no_in:
  "\<not> Contains val '' in '' \<Longrightarrow> parseVFor val = Inl IndexOutOfRange"
  by (simp add: parseVFor_def Split_def splitFrom_none index_def)




subsection \<open>Text nodes and interpolations\<close>

lemma range_ok_Nil: "range_ok rng \<Longrightarrow> rng [] = []"
  unfolding range_ok_def by (metis mset.simps(1) mset_zero_iff)



lemma set_Children_same: "set_Children e (Children e) = e"
  by (cases e) (simp add: set_Children_def)

lemma GenCode_text:
  assumes "TagName e = ''__string''" and "''__string'' \<notin> Components app" and "Children e = []"
    and "VFor e = None" and "VSlot e = None" and "VueElement.VIf e = None"
  shows "GenCode env app e =
     (case injectVal env (ReplaceAll (Text e) (CHR 0x0A) [CHR 0x5C, CHR ''n'']) of
        Inl err \<Rightarrow> Inl err
      | Inr txt \<Rightarrow> Inr ([CHR 0x22] @ txt @ [CHR 0x22], [], e))"
proof -
  have "set_Children e [] = e" using set_Children_same [of e] assms(3) by simp
  then show ?thesis using assms
    by (simp add: GenCode.simps genElement_def split: sum.splits)
qed

lemma matchVal_not_brace: "x \<noteq> CHR ''{'' \<Longrightarrow> matchVal (x # xs) = None"
  by (simp add: matchVal_def split: list.splits)

lemma injectVal_plain:
  "CHR ''{'' \<notin> set pre \<Longrightarrow>
   injectVal env (pre @ s) = (case injectVal env s of Inl err \<Rightarrow> Inl err | Inr t \<Rightarrow> Inr (pre @ t))"
  by (induction pre) (auto simp: matchVal_not_brace split: sum.splits)

lemma findClose_first:
  "\<not> Contains (k @ ''}'') ''}}'' \<Longrightarrow> findClose (k @ ''}}'' @ post) = Some (length k)"
proof (induction k)
  case Nil
  show ?case by simp
next
  case (Cons a k)
  from Cons.prems have np: "\<not> HasPrefix (a # k @ ''}'') ''}}''" and nc: "\<not> Contains (k @ ''}'') ''}}''"
    by simp_all
  obtain b r where br: "k @ ''}}'' @ post = b # r" by (cases k) auto
  have hb: "b = hd (k @ ''}'')" using br by (cases k) auto
  have "\<not> (a = CHR ''}'' \<and> b = CHR ''}'')"
    using np hb by (cases k) (auto simp: HasPrefix_def)
  then show ?case using Cons.IH [OF nc] br by auto
qed

lemma matchVal_braces:
  assumes "c \<noteq> CHR 0x0A" and "CHR 0x0A \<notin> set k" and "\<not> Contains (k @ ''}'') ''}}''"
  shows "matchVal (''{{'' @ (c # k) @ ''}}'' @ post) = Some (c # k, post)"
  using assms findClose_first [of k post] by (simp add: matchVal_def)

lemma injectVal_replace:
  assumes "CHR ''{'' \<notin> set pre" and "c \<noteq> CHR 0x0A" and "CHR 0x0A \<notin> set k"
    and "\<not> Contains (k @ ''}'') ''}}''"
  shows "injectVal env (pre @ ''{{'' @ (c # k) @ ''}}'' @ post) =
     (case Js2Go env (c # k) DataKey of
        Inl err \<Rightarrow> Inl err
      | Inr goCode \<Rightarrow>
          (case injectVal env post of
             Inl err \<Rightarrow> Inl err
           | Inr t \<Rightarrow> Inr (pre @ ''\"+interfaceToStr('' @ goCode @ '')+\"'' @ t)))"
proof -
  have m: "matchVal (CHR ''{'' # ''{'' @ (c # k) @ ''}}'' @ post) = Some (c # k, post)"
    using matchVal_braces [OF assms(2-4), of post] by simp
  have "injectVal env (''{{'' @ (c # k) @ ''}}'' @ post) =
     (case Js2Go env (c # k) DataKey of
        Inl err \<Rightarrow> Inl err
      | Inr goCode \<Rightarrow>
          (case injectVal env post of
             Inl err \<Rightarrow> Inl err
           | Inr t \<Rightarrow> Inr (''\"+interfaceToStr('' @ goCode @ '')+\"'' @ t)))"
    using m by (simp split: sum.splits)
  then show ?thesis
    using injectVal_plain [OF assms(1), of env "''{{'' @ (c # k) @ ''}}'' @ post"]
    by (simp split: sum.splits)
qed

text \<open>
  C8.  A text node (tag \<^verbatim>\<open>__string\<close>, not a registered name, no children and no
  directive descriptor) yields its text with every newline replaced by a backslash and
  the letter n, then passed through \<open>injectVal\<close>, then put between double quotes.
  \<open>injectVal\<close> copies the text up to the first \<^verbatim>\<open>{{\<close>, replaces \<^verbatim>\<open>{{key}}\<close> by
  \<^verbatim>\<open>"+interfaceToStr(\<close>, the key transpiled against \<^verbatim>\<open>this\<close>, and \<^verbatim>\<open>)+"\<close>, and goes on
  with the text after the match.  For \<^verbatim>\<open><span>Hello {{ name }}</span>\<close>, with a
  transpiler that turns the key into \<^verbatim>\<open>this["name"]\<close>, the code holds
  \<^verbatim>\<open>interfaceToStr(this["name"])\<close>.
\<close>

theorem text_node_GenCode:
  \<open>(TagName e = ''__string'' \<and> ''__string'' \<notin> Components app \<and> Children e = []
      \<and> VFor e = None \<and> VSlot e = None \<and> VueElement.VIf e = None \<longrightarrow>
     GenCode env app e =
       (case injectVal env (ReplaceAll (Text e) (CHR 0x0A) [CHR 0x5C, CHR ''n'']) of
          Inl err \<Rightarrow> Inl err
        | Inr txt \<Rightarrow> Inr (''"'' @ txt @ ''"'', [], e)))
   \<and> (CHR ''{'' \<notin> set pre \<and> c \<noteq> CHR 0x0A \<and> CHR 0x0A \<notin> set k \<and> \<not> Contains (k @ ''}'') ''}}'' \<longrightarrow>
     injectVal env (pre @ ''{{'' @ (c # k) @ ''}}'' @ post) =
       (case Js2Go env (c # k) ''this'' of
          Inl err \<Rightarrow> Inl err
        | Inr goCode \<Rightarrow>
            (case injectVal env post of
               Inl err \<Rightarrow> Inl err
             | Inr t \<Rightarrow> Inr (pre @ ''"+interfaceToStr('' @ goCode @ '')+"'' @ t))))
   \<and> (range_ok (rangeOrder env) \<and> ''span'' \<notin> Components app \<and> ''__string'' \<notin> Components app
      \<and> Js2Go env '' name '' ''this'' = Inr ''this["name"]''
      \<and> genAttrCode env span_hello = Inr attrs \<longrightarrow>
     GenCode env app span_hello =
       Inr (''"<span"+'' @ attrs @ ''+">"+"Hello "+interfaceToStr(this["name"])+""+"</span>"'',
            [], span_hello))\<close>
proof (intro conjI impI)
  assume "TagName e = ''__string'' \<and> ''__string'' \<notin> Components app \<and> Children e = []
      \<and> VFor e = None \<and> VSlot e = None \<and> VueElement.VIf e = None"
  then show "GenCode env app e =
       (case injectVal env (ReplaceAll (Text e) (CHR 0x0A) [CHR 0x5C, CHR ''n'']) of
          Inl err \<Rightarrow> Inl err
        | Inr txt \<Rightarrow> Inr ([CHR 0x22] @ txt @ [CHR 0x22], [], e))"
    using GenCode_text [of e app env] by blast
next
  assume "CHR ''{'' \<notin> set pre \<and> c \<noteq> CHR 0x0A \<and> CHR 0x0A \<notin> set k \<and> \<not> Contains (k @ ''}'') ''}}''"
  then show \<open>injectVal env (pre @ ''{{'' @ (c # k) @ ''}}'' @ post) =
       (case Js2Go env (c # k) ''this'' of
          Inl err \<Rightarrow> Inl err
        | Inr goCode \<Rightarrow>
            (case injectVal env post of
               Inl err \<Rightarrow> Inl err
             | Inr t \<Rightarrow> Inr (pre @ ''"+interfaceToStr('' @ goCode @ '')+"'' @ t)))\<close>
    using injectVal_replace [of pre c k env post] by (simp add: DataKey_def)
next
  assume a: \<open>range_ok (rangeOrder env) \<and> ''span'' \<notin> Components app \<and> ''__string'' \<notin> Components app
      \<and> Js2Go env '' name '' ''this'' = Inr ''this["name"]''
      \<and> genAttrCode env span_hello = Inr attrs\<close>
  have t: \<open>GenCode env app (text_node ''Hello {{ name }}'') =
      Inr (''"Hello "+interfaceToStr(this["name"])+""'', [], text_node ''Hello {{ name }}'')\<close>
  proof -
    have \<open>injectVal env (''Hello '' @ ''{{'' @ (CHR '' '' # ''name '') @ ''}}'' @ []) =
       Inr (''Hello '' @ ''"+interfaceToStr('' @ ''this["name"]'' @ '')+"'' @ [])\<close>
      using a injectVal_replace [of "''Hello ''" "CHR '' ''" "''name ''" env "[]"]
      by (simp add: DataKey_def HasPrefix_def)
    then show ?thesis
      using a GenCode_text [of "text_node ''Hello {{ name }}''" app env]
      by (simp add: text_node_def ReplaceAll_def)
  qed
  have sc: "set_Children span_hello [text_node ''Hello {{ name }}''] = span_hello"
    by (simp add: span_hello_def set_Children_def plain_node_def)
  show \<open>GenCode env app span_hello =
       Inr (''"<span"+'' @ attrs @ ''+">"+"Hello "+interfaceToStr(this["name"])+""+"</span>"'',
            [], span_hello)\<close>
  proof -
    have ch: "Children span_hello = [text_node ''Hello {{ name }}'']"
      and tg: "TagName span_hello = ''span''" and nr: "\<not> IsRoot span_hello"
      and nd: "Directives span_hello = []" and nf: "VFor span_hello = None"
      and ns: "VSlot span_hello = None" and ni: "VueElement.VIf span_hello = None"
      by (simp_all add: span_hello_def set_Children_def plain_node_def)
    have nv: "\<not> VElse (text_node ''Hello {{ name }}'')" "\<not> VElseIf (text_node ''Hello {{ name }}'')"
      by (simp_all add: text_node_def)
    have "rangeOrder env [] = []"
      using a by (simp add: range_ok_Nil)
    then have mm: "mergeMap (rangeOrder env) [] [] = []"
      by (simp add: mergeMap_def)
    show ?thesis
      using a t sc ch tg nr nd nf ns ni nv mm
      by (simp add: GenCode.simps [of _ _ span_hello] genElement_def)
  qed
qed

lemma range_ok_id: "range_ok id"
  by (simp add: range_ok_def)

theorem text_node_GenCode_witness:
  \<open>GenCode (ex_env id) NewApp (text_node (''a'' @ [CHR 0x0A] @ ''b''))
     = Inr (''"a'' @ [CHR 0x5C] @ ''nb"'', [], text_node (''a'' @ [CHR 0x0A] @ ''b''))
   \<and> injectVal (ex_env id) ''Hello {{ name }}'' = Inr ''Hello "+interfaceToStr(this["name"])+"''
   \<and> GenCode (ex_env id) NewApp span_hello
     = Inr (''"<span"+""+">"+"Hello "+interfaceToStr(this["name"])+""+"</span>"'', [], span_hello)\<close>
proof -
  let ?env = "ex_env id"
  let ?e = "text_node (''a'' @ [CHR 0x0A] @ ''b'')"
  have h1: "TagName ?e = ''__string'' \<and> ''__string'' \<notin> Components NewApp \<and> Children ?e = []
      \<and> VFor ?e = None \<and> VSlot ?e = None \<and> VueElement.VIf ?e = None"
    by (simp add: text_node_def NewApp_def)
  have i1: "injectVal ?env (ReplaceAll (Text ?e) (CHR 0x0A) [CHR 0x5C, CHR ''n'']) = Inr (''a'' @ [CHR 0x5C] @ ''nb'')"
    by code_simp
  have c1: \<open>GenCode ?env NewApp ?e = Inr (''"a'' @ [CHR 0x5C] @ ''nb"'', [], ?e)\<close>
    using text_node_GenCode [of ?e NewApp ?env] h1 i1 by simp
  have h2: "CHR ''{'' \<notin> set ''Hello '' \<and> CHR '' '' \<noteq> CHR 0x0A \<and> CHR 0x0A \<notin> set ''name ''
      \<and> \<not> Contains (''name '' @ ''}'') ''}}''"
    by (simp add: HasPrefix_def)
  have j2: \<open>Js2Go ?env (CHR '' '' # ''name '') ''this'' = Inr ''this["name"]''\<close>
    by (simp add: ex_env_def identJs2Go_def Trim_def)
  have c2: \<open>injectVal ?env ''Hello {{ name }}'' = Inr ''Hello "+interfaceToStr(this["name"])+"''\<close>
    using text_node_GenCode [of _ _ ?env "''Hello ''" "CHR '' ''" "''name ''" "[]"] h2 j2 by simp
  have h3: \<open>range_ok (rangeOrder ?env) \<and> ''span'' \<notin> Components NewApp \<and> ''__string'' \<notin> Components NewApp
      \<and> Js2Go ?env '' name '' ''this'' = Inr ''this["name"]''
      \<and> genAttrCode ?env span_hello = Inr ''""''\<close>
    using j2 range_ok_id by (simp add: ex_env_def NewApp_def)
  have c3: \<open>GenCode ?env NewApp span_hello
     = Inr (''"<span"+""+">"+"Hello "+interfaceToStr(this["name"])+""+"</span>"'', [], span_hello)\<close>
    using text_node_GenCode [of _ NewApp ?env _ _ _ _ \<open>''""''\<close>] h3 by simp
  from c1 c2 c3 show ?thesis by blast
qed

subsection \<open>Directive decorators: \<^verbatim>\<open>v-for\<close>, \<^verbatim>\<open>v-slot\<close>, \<^verbatim>\<open>v-if\<close>\<close>










subsection \<open>The options literal and its default slot\<close>
























subsection \<open>What \<^verbatim>\<open>GenCode\<close> writes to the tree\<close>





















subsection \<open>The order in which maps are visited\<close>



























end
